theory Spec2Isabelle
  imports
    Main
    "HOL-Library.Char_ord"
    "HOL-Library.List_Lexorder"
    "HOL-Library.Sublist"
    "HOL-Library.Multiset"
begin

section \<open>JavaScript strings\<close>

text \<open>
  A JavaScript string is a sequence of code units; it is modelled as a \<open>string\<close>, each
  \<open>char\<close> standing for a code unit below 256. The relational operators on strings compare
  code units lexicographically, a proper prefix being smaller: this is the order of
  \<open>List_Lexorder\<close> over \<open>Char_ord\<close>.
\<close>

text \<open>
  \<open>s.substring(start, end)\<close>: both indices are clamped to \<open>0 .. s.length\<close> and swapped
  when the first exceeds the second.
\<close>

definition substring :: "string \<Rightarrow> int \<Rightarrow> int \<Rightarrow> string" where
  "substring s start stop =
     (let len = int (length s);
          a = min (max start 0) len;
          b = min (max stop 0) len;
          lo = min a b;
          hi = max a b
      in take (nat (hi - lo)) (drop (nat lo) s))"

text \<open>\<open>s.startsWith(p)\<close> and \<open>s.endsWith(e)\<close>, position by position.\<close>

definition startsWith :: "string \<Rightarrow> string \<Rightarrow> bool" where
  "startsWith s p = (length p \<le> length s \<and> take (length p) s = p)"

definition endsWith :: "string \<Rightarrow> string \<Rightarrow> bool" where
  "endsWith s e = (length e \<le> length s \<and> drop (length s - length e) s = e)"

text \<open>
  \<open>s.toLowerCase()\<close> on code units below 256: the letters A to Z, and the upper-case
  letters of the Latin-1 range (192 to 222 but for the multiplication sign 215), move up by 32.
\<close>

definition toLowerChar :: "char \<Rightarrow> char" where
  "toLowerChar c =
     (let n = (of_char c :: nat)
      in if (65 \<le> n \<and> n \<le> 90) \<or> (192 \<le> n \<and> n \<le> 222 \<and> n \<noteq> 215)
         then char_of (n + 32) else c)"

definition toLowerCase :: "string \<Rightarrow> string" where
  "toLowerCase s = map toLowerChar s"

section \<open>GEDCOM entries and their index\<close>

text \<open>
  A \<open>GedcomEntry\<close> of the parser: \<open>pointer\<close> is handed to \<open>pointerToId\<close>, which takes a
  string, so it is a string, empty (falsy) when the line has none; \<open>data\<close> is only tested
  for truthiness, so both an absent and an empty \<open>data\<close> are kept apart.
\<close>

datatype GedcomEntry =
  GedcomEntry (tag: string) (pointer: string) (data: "string option") (tree: "GedcomEntry list")

text \<open>
  A JavaScript object used as a dictionary by \<open>obj[key] = value\<close>. The assignment stores
  an own property under every key but \<open>__proto__\<close>: that key is the accessor of the
  prototype, and assigning an object to it makes the object the new prototype. \<open>own\<close> holds
  the own properties; \<open>proto\<close> is \<open>None\<close> while the object has the prototype it was
  created with, and the object last assigned to \<open>__proto__\<close> afterwards.
\<close>

record 'v jsObject =
  own :: "string \<rightharpoonup> 'v"
  proto :: "'v option"

definition emptyObject :: "'v jsObject" where
  "emptyObject = \<lparr>own = Map.empty, proto = None\<rparr>"

definition putProperty :: "'v jsObject \<Rightarrow> string \<Rightarrow> 'v \<Rightarrow> 'v jsObject" where
  "putProperty obj k v =
     (if k = ''__proto__'' then obj\<lparr>proto := Some v\<rparr> else obj\<lparr>own := (own obj)(k \<mapsto> v)\<rparr>)"

text \<open>
  \<open>GedcomData\<close>. The field \<open>head\<close> is the result of \<open>Array.prototype.find\<close>, which is
  \<open>undefined\<close> (here \<open>None\<close>) when no entry matches. The three dictionaries are plain
  objects (\<open>{}\<close>); the fields are prefixed, \<open>indis\<close> and \<open>fams\<close> being the fields of
  the chart data as well.
\<close>

record GedcomData =
  head :: "GedcomEntry option"
  gd_indis :: "GedcomEntry jsObject"
  gd_fams :: "GedcomEntry jsObject"
  gd_other :: "GedcomEntry jsObject"

definition pointerToId :: "string \<Rightarrow> string" where
  "pointerToId p = substring p 1 (int (length p) - 1)"



section \<open>The birth date comparator\<close>

definition strcmp :: "string \<Rightarrow> string \<Rightarrow> int" where
  "strcmp a b = (if a < b then - 1 else if a > b then 1 else 0)"

text \<open>
  The chart data, with the fields the code reads. Numbers are integers (day, month and year
  come from parsed digits); an optional field that is absent is \<open>None\<close>.
\<close>

record JsonDate =
  day :: "int option"
  month :: "int option"
  year :: "int option"

record JsonDateRange =
  range_from :: "JsonDate option"
  range_to :: "JsonDate option"

record JsonEvent =
  date :: "JsonDate option"
  dateRange :: "JsonDateRange option"

record JsonImage =
  url :: string
  title :: "string option"

record JsonIndi =
  indi_id :: string
  birth :: "JsonEvent option"
  images :: "JsonImage list option"

text \<open>
  The children of a family are an array that \<open>sort\<close> works on in place: a family holds the
  address of the array, and a store maps addresses to the arrays' contents.
\<close>

type_synonym addr = nat

type_synonym store = "addr \<Rightarrow> string list"

record JsonFam =
  children :: "addr option"

record JsonGedcomData =
  indis :: "JsonIndi list"
  fams :: "JsonFam list"

text \<open>A number in a condition: \<open>undefined\<close> and 0 are falsy.\<close>

definition truthy :: "int option \<Rightarrow> bool" where
  "truthy n = (case n of None \<Rightarrow> False | Some v \<Rightarrow> v \<noteq> 0)"

text \<open>An error object: a plain \<open>Error\<close> with its message, or the runtime's \<open>TypeError\<close>.\<close>

datatype js_error = Error string | TypeError

text \<open>
  \<open>idToIndiMap\<close> is a \<open>Map\<close> object that the code fills by property assignment
  (\<open>idToIndiMap[indi.id] = indi\<close>), not by \<open>set\<close>. Its prototype has \<open>size\<close> as an
  accessor without a setter, so in module (strict) code the assignment to the key \<open>size\<close>
  throws a \<open>TypeError\<close> as long as the object has that prototype; every other key is
  assigned as on a plain object.
\<close>

definition putMapProperty :: "'v jsObject \<Rightarrow> string \<Rightarrow> 'v \<Rightarrow> js_error + 'v jsObject" where
  "putMapProperty obj k v =
     (if k = ''size'' \<and> proto obj = None then Inl TypeError else Inr (putProperty obj k v))"

text \<open>The \<open>forEach\<close> that fills \<open>idToIndiMap\<close>; an error ends it.\<close>

fun fillMap :: "JsonIndi jsObject \<Rightarrow> JsonIndi list \<Rightarrow> js_error + JsonIndi jsObject" where
  "fillMap obj [] = Inr obj"
| "fillMap obj (indi # rest) =
     (case putMapProperty obj (indi_id indi) indi of
        Inl e \<Rightarrow> Inl e
      | Inr obj1 \<Rightarrow> fillMap obj1 rest)"

definition idToIndiMap :: "JsonGedcomData \<Rightarrow> js_error + JsonIndi jsObject" where
  "idToIndiMap gedcom = fillMap emptyObject (indis gedcom)"

text \<open>
  \<open>idToIndiMap[indiId]\<close>, as far as the comparator can tell: an own property, or for the
  key \<open>__proto__\<close> the object assigned as prototype. Whatever else the lookup yields (an
  inherited method, the number of \<open>size\<close>, a field of an individual that became the
  prototype) is falsy or has no \<open>birth\<close>, and leaves \<open>birth1\<close> falsy as \<open>undefined\<close> does.
\<close>

definition getIndi :: "JsonIndi jsObject \<Rightarrow> string \<Rightarrow> JsonIndi option" where
  "getIndi obj k = (if k = ''__proto__'' then proto obj else own obj k)"

text \<open>\<open>birth && (birth.date || (birth.dateRange && birth.dateRange.from))\<close>\<close>

definition birthDate :: "JsonEvent option \<Rightarrow> JsonDate option" where
  "birthDate b =
     (case b of
        None \<Rightarrow> None
      | Some ev \<Rightarrow>
          (case date ev of
             Some d \<Rightarrow> Some d
           | None \<Rightarrow> (case dateRange ev of None \<Rightarrow> None | Some r \<Rightarrow> range_from r)))"

text \<open>The function that \<open>birthDatesComparator\<close> returns, over the filled object.\<close>

definition compareBirthDates :: "JsonIndi jsObject \<Rightarrow> string \<Rightarrow> string \<Rightarrow> int" where
  "compareBirthDates indiMap indiId1 indiId2 =
     (let idComparison = strcmp indiId1 indiId2;
          indi1 = getIndi indiMap indiId1;
          indi2 = getIndi indiMap indiId2;
          birth1 = Option.bind indi1 birth;
          birth2 = Option.bind indi2 birth;
          date1 = birthDate birth1;
          date2 = birthDate birth2
      in case date1 of
           None \<Rightarrow> idComparison
         | Some d1 \<Rightarrow>
             (case date2 of
                None \<Rightarrow> idComparison
              | Some d2 \<Rightarrow>
                  if \<not> truthy (year d1) \<or> \<not> truthy (year d2) then idComparison
                  else if year d1 \<noteq> year d2 then the (year d1) - the (year d2)
                  else if \<not> truthy (month d1) \<or> \<not> truthy (month d2) then idComparison
                  else if month d1 \<noteq> month d2 then the (month d1) - the (month d2)
                  else if truthy (day d1) \<and> truthy (day d2) \<and> day d1 \<noteq> day d2
                    then the (month d1) - the (month d2)
                  else idComparison))"

definition birthDatesComparator :: "JsonGedcomData \<Rightarrow> js_error + (string \<Rightarrow> string \<Rightarrow> int)" where
  "birthDatesComparator gedcom =
     (case idToIndiMap gedcom of
        Inl e \<Rightarrow> Inl e
      | Inr indiMap \<Rightarrow> Inr (compareBirthDates indiMap))"

section \<open>Sorting the children\<close>

text \<open>
  \<open>Array.prototype.sort\<close> belongs to the runtime, not to this program: it is the parameter
  \<open>arraySort\<close>, from a comparator and the contents of an array to the contents after the
  call. It sorts the array in place and returns that same array.
\<close>

type_synonym sorter = "(string \<Rightarrow> string \<Rightarrow> int) \<Rightarrow> string list \<Rightarrow> string list"

text \<open>
  \<open>sortFamilyChildren\<close>: \<open>newChildren\<close> is what \<open>fam.children.sort(comparator)\<close> returns,
  the array at the address the family already holds, now sorted in the store.
\<close>

definition sortFamilyChildren ::
  "sorter \<Rightarrow> store \<Rightarrow> JsonFam \<Rightarrow> (string \<Rightarrow> string \<Rightarrow> int) \<Rightarrow> store \<times> JsonFam" where
  "sortFamilyChildren arraySort st fam comparator =
     (case children fam of
        None \<Rightarrow> (st, fam)
      | Some a \<Rightarrow>
          (let st1 = st(a := arraySort comparator (st a));
               newChildren = a
           in (st1, fam\<lparr>children := Some newChildren\<rparr>)))"

text \<open>The \<open>map\<close> over the families, left to right, each call working on the store.\<close>

fun sortFams ::
  "sorter \<Rightarrow> store \<Rightarrow> JsonFam list \<Rightarrow> (string \<Rightarrow> string \<Rightarrow> int) \<Rightarrow> store \<times> JsonFam list" where
  "sortFams arraySort st [] comparator = (st, [])"
| "sortFams arraySort st (fam # rest) comparator =
     (case sortFamilyChildren arraySort st fam comparator of
        (st1, fam1) \<Rightarrow>
          (case sortFams arraySort st1 rest comparator of
             (st2, rest1) \<Rightarrow> (st2, fam1 # rest1)))"

text \<open>\<open>sortChildren\<close>: the error of building the comparator leaves the function.\<close>

definition sortChildren ::
  "sorter \<Rightarrow> store \<Rightarrow> JsonGedcomData \<Rightarrow> js_error + store \<times> JsonGedcomData" where
  "sortChildren arraySort st gedcom =
     (case birthDatesComparator gedcom of
        Inl e \<Rightarrow> Inl e
      | Inr comparator \<Rightarrow>
          (case sortFams arraySort st (fams gedcom) comparator of
             (st1, newFams) \<Rightarrow> Inr (st1, gedcom\<lparr>fams := newFams\<rparr>)))"

section \<open>Filtering the images\<close>

definition IMAGE_EXTENSIONS :: "string list" where
  "IMAGE_EXTENSIONS = [''.jpg'', ''.png'', ''.gif'']"

definition isImageFile :: "string \<Rightarrow> bool" where
  "isImageFile fileName =
     (let lowerName = toLowerCase fileName
      in list_ex (\<lambda>ext. endsWith lowerName ext) IMAGE_EXTENSIONS)"

text \<open>
  \<open>url.match(/[^/\\]*$/)![0]\<close>: the leftmost match is the longest run, up to the end of the
  string, of code units that are neither a slash nor a backslash (code unit 92). The
  expression matches every string, at worst with the empty run.
\<close>

definition isSeparator :: "char \<Rightarrow> bool" where
  "isSeparator c = (c = CHR ''/'' \<or> c = CHR 0x5C)"

definition matchFileName :: "string \<Rightarrow> string" where
  "matchFileName u = rev (takeWhile (\<lambda>c. \<not> isSeparator c) (rev u))"

text \<open>The body of the \<open>forEach\<close> of \<open>filterImage\<close>; \<open>push\<close> appends.\<close>

definition filterStep :: "(string \<rightharpoonup> string) \<Rightarrow> JsonImage list \<Rightarrow> JsonImage \<Rightarrow> JsonImage list" where
  "filterStep imageMap newImages img =
     (let fileName = matchFileName (url img)
      in case imageMap fileName of
           Some loaded \<Rightarrow> newImages @ [\<lparr>url = loaded, title = title img\<rparr>]
         | None \<Rightarrow>
             if startsWith (url img) ''http'' \<and> isImageFile (url img)
             then newImages @ [img]
             else newImages)"

definition filterImage :: "JsonIndi \<Rightarrow> (string \<rightharpoonup> string) \<Rightarrow> JsonIndi" where
  "filterImage indi imageMap =
     (case images indi of
        None \<Rightarrow> indi
      | Some imgs \<Rightarrow>
          if length imgs = 0 then indi
          else indi\<lparr>images := Some (foldl (filterStep imageMap) [] imgs)\<rparr>)"


section \<open>The conversion\<close>


record TopolaData =
  chartData :: JsonGedcomData
  gedcom :: GedcomData


section \<open>The software of the file\<close>

definition getSoftware :: "GedcomEntry option \<Rightarrow> string option" where
  "getSoftware headEntry =
     (let sour = Option.bind headEntry (\<lambda>h. find (\<lambda>entry. tag entry = ''SOUR'') (tree h));
          name = Option.bind sour (\<lambda>s. find (\<lambda>entry. tag entry = ''NAME'') (tree s))
      in case Option.bind name data of
           None \<Rightarrow> None
         | Some d \<Rightarrow> if d = [] then None else Some d)"

section \<open>Definitions for the statements\<close>

text \<open>
  The individual an id resolves to: the last individual of the chart data that has the id.
\<close>

definition individualOf :: "JsonGedcomData \<Rightarrow> string \<Rightarrow> JsonIndi option" where
  "individualOf g i = find (\<lambda>p. indi_id p = i) (rev (indis g))"

text \<open>
  The usable birth date of an individual: the date of the birth if it has one, else the
  start of the birth's date range; none without a birth, and none when both are missing.
\<close>

definition usableDate :: "JsonIndi \<Rightarrow> JsonDate option" where
  "usableDate p =
     (case birth p of
        None \<Rightarrow> None
      | Some ev \<Rightarrow>
          if date ev \<noteq> None then date ev
          else (case dateRange ev of None \<Rightarrow> None | Some r \<Rightarrow> range_from r))"

definition resolvedBirthDate :: "JsonGedcomData \<Rightarrow> string \<Rightarrow> JsonDate option" where
  "resolvedBirthDate g i = Option.bind (individualOf g i) usableDate"

text \<open>
  The individuals on which filling the \<open>Map\<close> object throws: one of them has the id
  \<open>size\<close>, and none before it has the id \<open>__proto__\<close>.
\<close>

fun sizeClash :: "JsonIndi list \<Rightarrow> bool" where
  "sizeClash [] = False"
| "sizeClash (p # ps) =
     (if indi_id p = ''__proto__'' then False
      else if indi_id p = ''size'' then True
      else sizeClash ps)"

text \<open>
  Building the comparator of chart data and comparing two ids with it: the number returned,
  or the error thrown.
\<close>

definition comparison :: "JsonGedcomData \<Rightarrow> string \<Rightarrow> string \<Rightarrow> js_error + int" where
  "comparison g a b =
     (case birthDatesComparator g of Inl e \<Rightarrow> Inl e | Inr comparator \<Rightarrow> Inr (comparator a b))"

text \<open>Chart data with two births in January 1900, the first on a day 0.\<close>

definition zeroDayData :: JsonGedcomData where
  "zeroDayData =
     \<lparr>indis =
        [\<lparr>indi_id = ''I1'',
          birth = Some \<lparr>date = Some \<lparr>day = Some 0, month = Some 1, year = Some 1900\<rparr>,
                        dateRange = None\<rparr>,
          images = None\<rparr>,
         \<lparr>indi_id = ''I2'',
          birth = Some \<lparr>date = Some \<lparr>day = Some 5, month = Some 1, year = Some 1900\<rparr>,
                        dateRange = None\<rparr>,
          images = None\<rparr>],
      fams = []\<rparr>"

text \<open>Chart data with two births in January 1900, on the days 3 and 5, the second given as a range.\<close>

definition sameMonthData :: JsonGedcomData where
  "sameMonthData =
     \<lparr>indis =
        [\<lparr>indi_id = ''I1'',
          birth = Some \<lparr>date = Some \<lparr>day = Some 3, month = Some 1, year = Some 1900\<rparr>,
                        dateRange = None\<rparr>,
          images = None\<rparr>,
         \<lparr>indi_id = ''I2'',
          birth = Some \<lparr>date = None,
                        dateRange = Some \<lparr>range_from = Some \<lparr>day = Some 5, month = Some 1, year = Some 1900\<rparr>,
                                          range_to = None\<rparr>\<rparr>,
          images = None\<rparr>],
      fams = []\<rparr>"

text \<open>
  Chart data with a birth in 1900 (\<open>I4\<close>) and three individuals that the comparator cannot
  date: \<open>I1\<close> has no birth, the range of \<open>I2\<close> starts in a March without a year, and the
  range of \<open>I3\<close> has an end in 1850 and no start.
\<close>

definition undatedData :: JsonGedcomData where
  "undatedData =
     \<lparr>indis =
        [\<lparr>indi_id = ''I4'',
          birth = Some \<lparr>date = Some \<lparr>day = Some 3, month = Some 1, year = Some 1900\<rparr>,
                        dateRange = None\<rparr>,
          images = None\<rparr>,
         \<lparr>indi_id = ''I3'',
          birth = Some \<lparr>date = None,
                        dateRange = Some \<lparr>range_from = None,
                                          range_to = Some \<lparr>day = None, month = None, year = Some 1850\<rparr>\<rparr>\<rparr>,
          images = None\<rparr>,
         \<lparr>indi_id = ''I2'',
          birth = Some \<lparr>date = None,
                        dateRange = Some \<lparr>range_from = Some \<lparr>day = None, month = Some 3, year = None\<rparr>,
                                          range_to = None\<rparr>\<rparr>,
          images = None\<rparr>,
         \<lparr>indi_id = ''I1'', birth = None, images = None\<rparr>],
      fams = []\<rparr>"

text \<open>Chart data whose second individual has the id \<open>size\<close>, and their family.\<close>

definition sizeData :: JsonGedcomData where
  "sizeData =
     \<lparr>indis =
        [\<lparr>indi_id = ''I1'', birth = None, images = None\<rparr>,
         \<lparr>indi_id = ''size'', birth = None, images = None\<rparr>],
      fams = [\<lparr>children = Some 0\<rparr>]\<rparr>"


text \<open>
  A sequence is sorted by a comparator when no element compares greater than a later one,
  and in order when no element compares greater than the next one.
\<close>

definition sortedBy :: "('a \<Rightarrow> 'a \<Rightarrow> int) \<Rightarrow> 'a list \<Rightarrow> bool" where
  "sortedBy comparator xs = sorted_wrt (\<lambda>x y. \<not> 0 < comparator x y) xs"

fun inOrder :: "('a \<Rightarrow> 'a \<Rightarrow> int) \<Rightarrow> 'a list \<Rightarrow> bool" where
  "inOrder comparator [] = True"
| "inOrder comparator [x] = True"
| "inOrder comparator (x # y # ys) = (\<not> 0 < comparator x y \<and> inOrder comparator (y # ys))"


text \<open>
  Modelled from the spec: the sort of the children, which the spec calls stable and
  deterministic (4.3, 4.4), and which the program leaves to the runtime's
  \<open>Array.prototype.sort\<close>, no part of the sources. It is a stable insertion sort: each
  element, from the last to the first, goes in front of the sorted rest and moves behind
  the elements it compares greater than.
\<close>

fun sortedInsert :: "('a \<Rightarrow> 'a \<Rightarrow> int) \<Rightarrow> 'a \<Rightarrow> 'a list \<Rightarrow> 'a list" where
  "sortedInsert comparator v [] = [v]"
| "sortedInsert comparator v (w # ws) =
     (if 0 < comparator v w then w # sortedInsert comparator v ws else v # w # ws)"

fun stableInsertionSort :: "('a \<Rightarrow> 'a \<Rightarrow> int) \<Rightarrow> 'a list \<Rightarrow> 'a list" where
  "stableInsertionSort comparator [] = []"
| "stableInsertionSort comparator (v # vs) =
     sortedInsert comparator v (stableInsertionSort comparator vs)"

text \<open>
  A store with the array \<open>["I2", "I1"]\<close> at address 0, a family whose children are that
  array, and chart data of that family with two individuals without a birth; the object
  that the comparator of these chart data is built on.
\<close>

definition unsortedStore :: store where
  "unsortedStore = (\<lambda>a. [])(0 := [''I2'', ''I1''])"

definition firstFam :: JsonFam where
  "firstFam = \<lparr>children = Some 0\<rparr>"

definition noBirthData :: JsonGedcomData where
  "noBirthData =
     \<lparr>indis =
        [\<lparr>indi_id = ''I1'', birth = None, images = None\<rparr>,
         \<lparr>indi_id = ''I2'', birth = None, images = None\<rparr>],
      fams = [firstFam]\<rparr>"

definition noBirthMap :: "JsonIndi jsObject" where
  "noBirthMap =
     putProperty
       (putProperty emptyObject ''I1'' \<lparr>indi_id = ''I1'', birth = None, images = None\<rparr>)
       ''I2'' \<lparr>indi_id = ''I2'', birth = None, images = None\<rparr>"


text \<open>
  The store after the children of every family of a sequence, in turn, have been sorted in
  place.
\<close>

definition childrenSorted ::
  "sorter \<Rightarrow> (string \<Rightarrow> string \<Rightarrow> int) \<Rightarrow> store \<Rightarrow> JsonFam list \<Rightarrow> store" where
  "childrenSorted arraySort comparator st fs =
     foldl (\<lambda>s fam. case children fam of None \<Rightarrow> s | Some a \<Rightarrow> s(a := arraySort comparator (s a)))
       st fs"

text \<open>
  The \<open>NAME\<close> entry of the chain \<open>HEAD/SOUR/NAME\<close>: the first entry tagged \<open>SOUR\<close> of the
  head's sub-tree, and the first entry tagged \<open>NAME\<close> of that entry's sub-tree.
\<close>

fun firstTagged :: "string \<Rightarrow> GedcomEntry list \<Rightarrow> GedcomEntry option" where
  "firstTagged t [] = None"
| "firstTagged t (e # es) = (if tag e = t then Some e else firstTagged t es)"

definition sourEntry :: "GedcomEntry option \<Rightarrow> GedcomEntry option" where
  "sourEntry headEntry =
     (case headEntry of None \<Rightarrow> None | Some h \<Rightarrow> firstTagged ''SOUR'' (tree h))"

definition nameEntry :: "GedcomEntry option \<Rightarrow> GedcomEntry option" where
  "nameEntry headEntry =
     (case sourEntry headEntry of None \<Rightarrow> None | Some s \<Rightarrow> firstTagged ''NAME'' (tree s))"

text \<open>A head whose \<open>SOUR\<close> has a \<open>NAME\<close> with the empty string as data, after a \<open>VERS\<close>.\<close>

definition emptyNameHead :: GedcomEntry where
  "emptyNameHead =
     GedcomEntry ''HEAD'' [] None
       [GedcomEntry ''CHAR'' [] (Some ''UTF-8'') [],
        GedcomEntry ''SOUR'' [] (Some ''APP'')
          [GedcomEntry ''VERS'' [] (Some ''1.0'') [],
           GedcomEntry ''NAME'' [] (Some []) []]]"














text \<open>
  The file name of a url, in words: the url is split at every slash and backslash, and the
  file name is the last of the segments.
\<close>

fun splitPath :: "string \<Rightarrow> string list" where
  "splitPath [] = [[]]"
| "splitPath (c # cs) =
     (if isSeparator c then [] # splitPath cs
      else (case splitPath cs of [] \<Rightarrow> [[c]] | seg # segs \<Rightarrow> (c # seg) # segs))"

definition lastSegment :: "string \<Rightarrow> string" where
  "lastSegment u = last (splitPath u)"

text \<open>
  An accepted link starts with the four characters \<open>http\<close>, and its lower-cased form ends
  with one of the three extensions.
\<close>

definition acceptedLink :: "string \<Rightarrow> bool" where
  "acceptedLink u =
     (prefix ''http'' u
      \<and> (suffix ''.jpg'' (toLowerCase u) \<or> suffix ''.png'' (toLowerCase u)
         \<or> suffix ''.gif'' (toLowerCase u)))"

text \<open>
  An image survives when its file name is a key of the mapping or its url is an accepted
  link; a survivor whose file name is a key gets the mapping's url, keeping its title.
\<close>

definition survives :: "(string \<rightharpoonup> string) \<Rightarrow> JsonImage \<Rightarrow> bool" where
  "survives imageMap img =
     (lastSegment (url img) \<in> dom imageMap \<or> acceptedLink (url img))"

definition overridden :: "(string \<rightharpoonup> string) \<Rightarrow> JsonImage \<Rightarrow> JsonImage" where
  "overridden imageMap img =
     (case imageMap (lastSegment (url img)) of
        None \<Rightarrow> img
      | Some loaded \<Rightarrow> \<lparr>url = loaded, title = title img\<rparr>)"

text \<open>
  An individual with five images, and a mapping that knows the file name of the first.
\<close>

definition albumImages :: "JsonImage list" where
  "albumImages =
     [\<lparr>url = ''pics/photo.jpg'', title = Some ''Me''\<rparr>,
      \<lparr>url = ''ftp://example.com/a.jpg'', title = None\<rparr>,
      \<lparr>url = ''http://example.com/a.jpg'', title = None\<rparr>,
      \<lparr>url = ''http://example.com/a.pdf'', title = None\<rparr>,
      \<lparr>url = ''https://example.com/a.PNG'', title = Some ''Us''\<rparr>]"

definition albumIndi :: JsonIndi where
  "albumIndi = \<lparr>indi_id = ''I1'', birth = None, images = Some albumImages\<rparr>"

definition albumMap :: "string \<rightharpoonup> string" where
  "albumMap = [''photo.jpg'' \<mapsto> ''blob:1'']"

section \<open>Properties of the comparator\<close>

lemma strcmp_refl: "strcmp a a = 0"
  by (simp add: strcmp_def)

lemma strcmp_order: "strcmp a b = (if a < b then - 1 else if b < a then 1 else 0)"
  by (simp add: strcmp_def)

lemma getIndi_putProperty:
  "getIndi (putProperty obj k v) i = (if i = k then Some v else getIndi obj i)"
  by (simp add: getIndi_def putProperty_def)

lemma proto_putProperty:
  "proto (putProperty obj k v) = (if k = ''__proto__'' then Some v else proto obj)"
  by (simp add: putProperty_def)

lemma find_snoc:
  "find P (xs @ [x]) = (case find P xs of None \<Rightarrow> (if P x then Some x else None) | Some y \<Rightarrow> Some y)"
  by (induction xs) simp_all

text \<open>What the filled object holds, when filling it does not throw.\<close>

lemma fillMap_getIndi:
  "fillMap obj ps = Inr m \<Longrightarrow>
   getIndi m i =
     (case find (\<lambda>p. indi_id p = i) (rev ps) of None \<Rightarrow> getIndi obj i | Some p \<Rightarrow> Some p)"
proof (induction ps arbitrary: obj)
  case Nil
  then show ?case by simp
next
  case (Cons p ps)
  from Cons.prems have step: "fillMap (putProperty obj (indi_id p) p) ps = Inr m"
    by (simp add: putMapProperty_def split: if_splits)
  show ?case
    by (simp add: Cons.IH [OF step] find_snoc getIndi_putProperty split: option.splits)
qed

text \<open>When filling the object throws, and what it throws.\<close>

lemma fillMap_outcome:
  "fillMap obj ps =
     (if proto obj = None \<and> sizeClash ps then Inl TypeError
      else Inr (foldl (\<lambda>ob p. putProperty ob (indi_id p) p) obj ps))"
proof (induction ps arbitrary: obj)
  case Nil
  show ?case by simp
next
  case (Cons p ps)
  show ?case
    by (simp add: Cons.IH putMapProperty_def proto_putProperty)
qed

lemma idToIndiMap_outcome:
  "idToIndiMap g =
     (if sizeClash (indis g) then Inl TypeError
      else Inr (foldl (\<lambda>ob p. putProperty ob (indi_id p) p) emptyObject (indis g)))"
  by (simp add: idToIndiMap_def fillMap_outcome emptyObject_def)

lemma idToIndiMap_getIndi:
  assumes "idToIndiMap g = Inr m"
  shows "getIndi m i = individualOf g i"
proof -
  from assms have "fillMap emptyObject (indis g) = Inr m" by (simp add: idToIndiMap_def)
  from fillMap_getIndi [OF this, of i] show ?thesis
    by (simp add: individualOf_def emptyObject_def getIndi_def split: option.splits)
qed

lemma birthDate_usableDate: "birthDate (Option.bind p birth) = Option.bind p usableDate"
  by (cases p) (simp_all add: birthDate_def usableDate_def split: option.splits)

lemma individualOf_unknown: "i \<notin> indi_id ` set (indis g) \<Longrightarrow> individualOf g i = None"
  by (auto simp add: individualOf_def find_None_iff)

text \<open>The comparison of two ids, from the dates they resolve to.\<close>

lemma comparison_dates:
  "comparison g a b =
     (if sizeClash (indis g) then Inl TypeError
      else Inr
        (case resolvedBirthDate g a of
           None \<Rightarrow> strcmp a b
         | Some d1 \<Rightarrow>
             (case resolvedBirthDate g b of
                None \<Rightarrow> strcmp a b
              | Some d2 \<Rightarrow>
                  if \<not> truthy (year d1) \<or> \<not> truthy (year d2) then strcmp a b
                  else if year d1 \<noteq> year d2 then the (year d1) - the (year d2)
                  else if \<not> truthy (month d1) \<or> \<not> truthy (month d2) then strcmp a b
                  else if month d1 \<noteq> month d2 then the (month d1) - the (month d2)
                  else if truthy (day d1) \<and> truthy (day d2) \<and> day d1 \<noteq> day d2
                    then the (month d1) - the (month d2)
                  else strcmp a b)))"
proof (cases "sizeClash (indis g)")
  case True
  then show ?thesis
    by (simp add: comparison_def birthDatesComparator_def idToIndiMap_outcome)
next
  case False
  then obtain m where m: "idToIndiMap g = Inr m"
    by (simp add: idToIndiMap_outcome)
  have "birthDate (Option.bind (getIndi m i) birth) = resolvedBirthDate g i" for i
    by (simp add: idToIndiMap_getIndi [OF m] birthDate_usableDate resolvedBirthDate_def)
  with False m show ?thesis
    by (simp add: comparison_def birthDatesComparator_def compareBirthDates_def Let_def
        cong: option.case_cong)
qed

text \<open>
  C10. The comparator is reflexive: wherever the comparator is built, comparing an id with
  itself gives 0. It is not built for chart data on which filling the \<open>Map\<close> object
  throws: there the comparison is a \<open>TypeError\<close>.
\<close>

theorem comparator_reflexive:
  "comparison g i i = (if sizeClash (indis g) then Inl TypeError else Inr 0)"
  by (simp add: comparison_dates strcmp_refl split: option.splits)

theorem comparator_reflexive_witness:
  "comparison sameMonthData ''I2'' ''I2'' = Inr 0
   \<and> comparison sizeData ''size'' ''size'' = Inl TypeError"
proof -
  have "\<not> sizeClash (indis sameMonthData)" by (simp add: sameMonthData_def)
  moreover have "sizeClash (indis sizeData)" by (simp add: sizeData_def)
  ultimately show ?thesis
    using comparator_reflexive [of sameMonthData "''I2''"]
      comparator_reflexive [of sizeData "''size''"]
    by simp
qed

text \<open>
  C6. When one of the two ids is the id of no individual, or resolves to an individual
  without a usable birth date (neither \<open>date\<close> nor \<open>dateRange.from\<close>), or to one whose
  usable date has no year, the comparator, wherever it is built, returns the comparison of
  the two ids as strings: -1 when the first is less, 1 when it is greater, 0 when they are
  equal. Where it is not built the comparison is a \<open>TypeError\<close>.
\<close>

theorem comparator_fallback:
  assumes "a \<notin> indi_id ` set (indis g) \<or> b \<notin> indi_id ` set (indis g)
     \<or> (\<exists>p. individualOf g a = Some p \<and> usableDate p = None)
     \<or> (\<exists>p. individualOf g b = Some p \<and> usableDate p = None)
     \<or> (\<exists>p d. individualOf g a = Some p \<and> usableDate p = Some d \<and> year d = None)
     \<or> (\<exists>p d. individualOf g b = Some p \<and> usableDate p = Some d \<and> year d = None)"
  shows "comparison g a b =
     (if sizeClash (indis g) then Inl TypeError
      else Inr (if a < b then - 1 else if b < a then 1 else 0))"
proof -
  from assms consider
      (a_none) "resolvedBirthDate g a = None"
    | (b_none) "resolvedBirthDate g b = None"
    | (a_year) d where "resolvedBirthDate g a = Some d" "year d = None"
    | (b_year) d where "resolvedBirthDate g b = Some d" "year d = None"
  proof (elim disjE exE conjE)
    assume "a \<notin> indi_id ` set (indis g)"
    then have "resolvedBirthDate g a = None"
      by (simp add: resolvedBirthDate_def individualOf_unknown)
    then show ?thesis by (rule a_none)
  next
    assume "b \<notin> indi_id ` set (indis g)"
    then have "resolvedBirthDate g b = None"
      by (simp add: resolvedBirthDate_def individualOf_unknown)
    then show ?thesis by (rule b_none)
  next
    fix p assume "individualOf g a = Some p" "usableDate p = None"
    then have "resolvedBirthDate g a = None" by (simp add: resolvedBirthDate_def)
    then show ?thesis by (rule a_none)
  next
    fix p assume "individualOf g b = Some p" "usableDate p = None"
    then have "resolvedBirthDate g b = None" by (simp add: resolvedBirthDate_def)
    then show ?thesis by (rule b_none)
  next
    fix p d assume "individualOf g a = Some p" "usableDate p = Some d" and y: "year d = None"
    then have "resolvedBirthDate g a = Some d" by (simp add: resolvedBirthDate_def)
    then show ?thesis using y by (rule a_year)
  next
    fix p d assume "individualOf g b = Some p" "usableDate p = Some d" and y: "year d = None"
    then have "resolvedBirthDate g b = Some d" by (simp add: resolvedBirthDate_def)
    then show ?thesis using y by (rule b_year)
  qed
  then show ?thesis
  proof cases
    case a_none
    then show ?thesis by (simp add: comparison_dates strcmp_order)
  next
    case b_none
    then show ?thesis by (simp add: comparison_dates strcmp_order split: option.splits)
  next
    case a_year
    then show ?thesis
      by (simp add: comparison_dates strcmp_order truthy_def split: option.splits)
  next
    case b_year
    then show ?thesis
      by (simp add: comparison_dates strcmp_order truthy_def split: option.splits)
  qed
qed

theorem comparator_fallback_witness:
  "''I9'' \<notin> indi_id ` set (indis undatedData)
   \<and> comparison undatedData ''I9'' ''I4'' = Inr 1
   \<and> individualOf undatedData ''I1'' = Some (indis undatedData ! 3)
   \<and> usableDate (indis undatedData ! 3) = None
   \<and> comparison undatedData ''I1'' ''I4'' = Inr (- 1)
   \<and> individualOf undatedData ''I3'' = Some (indis undatedData ! 1)
   \<and> usableDate (indis undatedData ! 1) = None
   \<and> comparison undatedData ''I3'' ''I4'' = Inr (- 1)
   \<and> individualOf undatedData ''I2'' = Some (indis undatedData ! 2)
   \<and> usableDate (indis undatedData ! 2) = Some \<lparr>day = None, month = Some 3, year = None\<rparr>
   \<and> comparison undatedData ''I4'' ''I2'' = Inr 1
   \<and> ''I9'' \<notin> indi_id ` set (indis sizeData)
   \<and> comparison sizeData ''I1'' ''I9'' = Inl TypeError"
proof -
  have clash: "\<not> sizeClash (indis undatedData)" by (simp add: undatedData_def)
  have s9: "''I9'' \<notin> indi_id ` set (indis sizeData)" by (simp add: sizeData_def)
  have cs: "comparison sizeData ''I1'' ''I9'' = Inl TypeError"
  proof -
    have "sizeClash (indis sizeData)" by (simp add: sizeData_def)
    with comparator_fallback [of "''I1''" sizeData "''I9''"] s9 show ?thesis by simp
  qed
  have i9: "''I9'' \<notin> indi_id ` set (indis undatedData)" by (simp add: undatedData_def)
  have i1: "individualOf undatedData ''I1'' = Some (indis undatedData ! 3)"
    and u1: "usableDate (indis undatedData ! 3) = None"
    by (simp_all add: individualOf_def undatedData_def usableDate_def)
  have i3: "individualOf undatedData ''I3'' = Some (indis undatedData ! 1)"
    and u3: "usableDate (indis undatedData ! 1) = None"
    by (simp_all add: individualOf_def undatedData_def usableDate_def)
  have i2: "individualOf undatedData ''I2'' = Some (indis undatedData ! 2)"
    and u2: "usableDate (indis undatedData ! 2)
      = Some \<lparr>day = None, month = Some 3, year = None\<rparr>"
    by (simp_all add: individualOf_def undatedData_def usableDate_def)
  have lt: "''I1'' < ''I4''" "''I3'' < ''I4''" "''I2'' < ''I4''" "''I4'' < ''I9''"
    by simp_all
  have c9: "comparison undatedData ''I9'' ''I4'' = Inr 1"
    using comparator_fallback [of "''I9''" undatedData "''I4''"] i9 clash lt
    by (simp add: not_less_iff_gr_or_eq)
  have c1: "comparison undatedData ''I1'' ''I4'' = Inr (- 1)"
  proof -
    from i1 u1 have "\<exists>p. individualOf undatedData ''I1'' = Some p \<and> usableDate p = None"
      by blast
    with comparator_fallback [of "''I1''" undatedData "''I4''"] clash lt
    show ?thesis by simp
  qed
  have c3: "comparison undatedData ''I3'' ''I4'' = Inr (- 1)"
  proof -
    from i3 u3 have "\<exists>p. individualOf undatedData ''I3'' = Some p \<and> usableDate p = None"
      by blast
    with comparator_fallback [of "''I3''" undatedData "''I4''"] clash lt
    show ?thesis by simp
  qed
  have c2: "comparison undatedData ''I4'' ''I2'' = Inr 1"
  proof -
    from i2 u2 have "\<exists>p d. individualOf undatedData ''I2'' = Some p \<and> usableDate p = Some d
        \<and> year d = None"
      by simp
    with comparator_fallback [of "''I4''" undatedData "''I2''"] clash lt
    show ?thesis by (simp add: not_less_iff_gr_or_eq)
  qed
  from i9 c9 i1 u1 c1 i3 u3 c3 i2 u2 c2 s9 cs show ?thesis by blast
qed

text \<open>
  C3, as the claim states it, fails on a day 0: both dates carry a year, a month and a day,
  the years and the months are equal, the days differ, and the comparator returns -1.
\<close>

theorem comparator_day_tie_counterexample:
  "resolvedBirthDate zeroDayData ''I1'' = Some \<lparr>day = Some 0, month = Some 1, year = Some 1900\<rparr>
   \<and> resolvedBirthDate zeroDayData ''I2'' = Some \<lparr>day = Some 5, month = Some 1, year = Some 1900\<rparr>
   \<and> comparison zeroDayData ''I1'' ''I2'' = Inr (- 1)"
  by (simp add: comparison_dates resolvedBirthDate_def individualOf_def usableDate_def
      zeroDayData_def strcmp_def truthy_def)

text \<open>
  C3, amended. Wherever the comparator is built, when both resolved birth dates carry a
  year, a month and a day that are not 0, with equal years, equal months and differing days,
  the comparator returns 0: the month difference stands where the day difference would.
\<close>

theorem comparator_day_tie:
  assumes "\<not> sizeClash (indis g)"
    and "resolvedBirthDate g a = Some d1" and "resolvedBirthDate g b = Some d2"
    and "year d1 = Some y" and "year d2 = Some y" and "y \<noteq> 0"
    and "month d1 = Some m" and "month d2 = Some m" and "m \<noteq> 0"
    and "day d1 = Some e1" and "day d2 = Some e2" and "e1 \<noteq> 0" and "e2 \<noteq> 0" and "e1 \<noteq> e2"
  shows "comparison g a b = Inr 0"
  using assms by (simp add: comparison_dates truthy_def)

theorem comparator_day_tie_witness:
  "\<not> sizeClash (indis sameMonthData)
   \<and> resolvedBirthDate sameMonthData ''I1'' = Some \<lparr>day = Some 3, month = Some 1, year = Some 1900\<rparr>
   \<and> resolvedBirthDate sameMonthData ''I2'' = Some \<lparr>day = Some 5, month = Some 1, year = Some 1900\<rparr>
   \<and> comparison sameMonthData ''I1'' ''I2'' = Inr 0"
proof -
  have c: "\<not> sizeClash (indis sameMonthData)" by (simp add: sameMonthData_def)
  have d1: "resolvedBirthDate sameMonthData ''I1'' = Some \<lparr>day = Some 3, month = Some 1, year = Some 1900\<rparr>"
    by (simp add: resolvedBirthDate_def individualOf_def usableDate_def sameMonthData_def)
  have d2: "resolvedBirthDate sameMonthData ''I2'' = Some \<lparr>day = Some 5, month = Some 1, year = Some 1900\<rparr>"
    by (simp add: resolvedBirthDate_def individualOf_def usableDate_def sameMonthData_def)
  have "comparison sameMonthData ''I1'' ''I2'' = Inr 0"
    by (rule comparator_day_tie [OF c d1 d2, of 1900 1 3 5]) simp_all
  with c d1 d2 show ?thesis by simp
qed

section \<open>Properties of the sort\<close>





lemma sortedBy_Cons: "sortedBy c (w # ws) \<longleftrightarrow> (\<forall>y\<in>set ws. \<not> 0 < c w y) \<and> sortedBy c ws"
  by (simp add: sortedBy_def)








lemma sortedBy_inOrder: "sortedBy c xs \<Longrightarrow> inOrder c xs"
  by (induction c xs rule: inOrder.induct) (simp_all add: sortedBy_Cons)















lemma birthDatesComparator_noBirthData:
  "birthDatesComparator noBirthData = Inr (compareBirthDates noBirthMap)"
  by (simp add: birthDatesComparator_def idToIndiMap_def noBirthData_def noBirthMap_def
      putMapProperty_def)

lemma compare_noBirth:
  "compareBirthDates noBirthMap ''I2'' ''I1'' = 1"
  "compareBirthDates noBirthMap ''I1'' ''I2'' = - 1"
  "compareBirthDates noBirthMap ''I1'' ''I1'' = 0"
  "compareBirthDates noBirthMap ''I2'' ''I2'' = 0"
  by (simp_all add: compareBirthDates_def noBirthMap_def getIndi_def putProperty_def
      emptyObject_def birthDate_def strcmp_def)

text \<open>
  C1. What the code does with a family that has children, whatever the runtime's sort
  computes: the family it returns holds the address the input holds (the array is the same
  object), and the store has the result of the sort at that address, where the children in
  their order before the call were.
\<close>

theorem sortFamilyChildren_in_place:
  assumes "children fam = Some a"
  shows "sortFamilyChildren arraySort st fam comparator
     = (st(a := arraySort comparator (st a)), fam)"
  using assms by (simp add: sortFamilyChildren_def)

theorem sortFamilyChildren_in_place_witness:
  "children firstFam = Some 0
   \<and> birthDatesComparator noBirthData = Inr (compareBirthDates noBirthMap)
   \<and> unsortedStore 0 = [''I2'', ''I1'']
   \<and> children (snd (sortFamilyChildren stableInsertionSort unsortedStore firstFam
         (compareBirthDates noBirthMap))) = Some 0
   \<and> fst (sortFamilyChildren stableInsertionSort unsortedStore firstFam
         (compareBirthDates noBirthMap)) 0 = [''I1'', ''I2'']"
proof -
  have h: "children firstFam = Some 0" by (simp add: firstFam_def)
  have s: "unsortedStore 0 = [''I2'', ''I1'']" by (simp add: unsortedStore_def)
  from sortFamilyChildren_in_place
      [OF h, of stableInsertionSort unsortedStore "compareBirthDates noBirthMap"]
    h s compare_noBirth birthDatesComparator_noBirthData
  show ?thesis by simp
qed



lemma sortFams_length:
  "sortFams arraySort st fs c = (st1, fs1) \<Longrightarrow> length fs1 = length fs"
  by (induction fs arbitrary: st st1 fs1) (auto split: prod.splits)

text \<open>The families come back as they went in, and the store with every array sorted.\<close>

lemma sortFams_outcome: "sortFams arraySort st fs c = (childrenSorted arraySort c st fs, fs)"
proof (induction fs arbitrary: st)
  case Nil
  show ?case by (simp add: childrenSorted_def)
next
  case (Cons fam fs)
  show ?case
    by (cases "children fam")
      (simp_all add: Cons.IH [unfolded childrenSorted_def] childrenSorted_def
        sortFamilyChildren_def)
qed

lemma sortChildren_outcome:
  "sortChildren arraySort st g =
     (case birthDatesComparator g of
        Inl e \<Rightarrow> Inl e
      | Inr c \<Rightarrow> Inr (childrenSorted arraySort c st (fams g), g))"
  by (simp add: sortChildren_def sortFams_outcome split: sum.splits)

lemma birthDatesComparator_outcome:
  "birthDatesComparator g =
     (if sizeClash (indis g) then Inl TypeError
      else Inr (compareBirthDates
        (foldl (\<lambda>ob p. putProperty ob (indi_id p) p) emptyObject (indis g))))"
  by (simp add: birthDatesComparator_def idToIndiMap_outcome)

text \<open>
  C8. \<open>sortChildren\<close> rebuilds the families only: wherever it returns, the individuals of
  its result are the individuals of its input. It does not return for chart data on which
  the comparator is not built: there it throws a \<open>TypeError\<close>.
\<close>

theorem sortChildren_indis:
  "map_sum id (\<lambda>r. indis (snd r)) (sortChildren arraySort st g) =
     (if sizeClash (indis g) then Inl TypeError else Inr (indis g))"
  by (simp add: sortChildren_outcome birthDatesComparator_outcome)

theorem sortChildren_indis_witness:
  "map_sum id (\<lambda>r. indis (snd r)) (sortChildren stableInsertionSort unsortedStore noBirthData)
     = Inr (indis noBirthData)
   \<and> sortChildren stableInsertionSort unsortedStore sizeData = Inl TypeError"
proof -
  have a: "\<not> sizeClash (indis noBirthData)" by (simp add: noBirthData_def)
  have b: "sizeClash (indis sizeData)" by (simp add: sizeData_def)
  from sortChildren_indis [of stableInsertionSort unsortedStore noBirthData] a
  have "map_sum id (\<lambda>r. indis (snd r)) (sortChildren stableInsertionSort unsortedStore noBirthData)
     = Inr (indis noBirthData)"
    by simp
  moreover from sortChildren_indis [of stableInsertionSort unsortedStore sizeData] b
  have "sortChildren stableInsertionSort unsortedStore sizeData = Inl TypeError"
    by (cases "sortChildren stableInsertionSort unsortedStore sizeData") simp_all
  ultimately show ?thesis by simp
qed

section \<open>Properties of the software lookup\<close>

lemma find_firstTagged: "find (\<lambda>entry. tag entry = t) es = firstTagged t es"
  by (induction es) simp_all

lemma getSoftware_nameEntry:
  "getSoftware headEntry =
     (case Option.bind (nameEntry headEntry) data of
        None \<Rightarrow> None
      | Some d \<Rightarrow> if d = [] then None else Some d)"
  by (cases headEntry)
    (simp_all add: getSoftware_def nameEntry_def sourEntry_def find_firstTagged
      split: option.splits)

text \<open>
  C9. \<open>getSoftware\<close> never returns the empty string. When the chain \<open>HEAD/SOUR/NAME\<close>
  exists and the data of its \<open>NAME\<close> entry is missing or the empty string, the result is
  the absent value, as it is when the \<open>SOUR\<close> or the \<open>NAME\<close> entry is missing; any other
  data is returned as it is.
\<close>

theorem getSoftware_never_empty:
  "getSoftware headEntry \<noteq> Some []
   \<and> (\<forall>name. nameEntry headEntry = Some name \<longrightarrow> data name = None \<or> data name = Some []
         \<longrightarrow> getSoftware headEntry = None)
   \<and> (sourEntry headEntry = None \<longrightarrow> getSoftware headEntry = None)
   \<and> (nameEntry headEntry = None \<longrightarrow> getSoftware headEntry = None)
   \<and> (\<forall>name d. nameEntry headEntry = Some name \<longrightarrow> data name = Some d \<longrightarrow> d \<noteq> []
         \<longrightarrow> getSoftware headEntry = Some d)"
  by (auto simp add: getSoftware_nameEntry nameEntry_def split: option.splits)

theorem getSoftware_never_empty_witness:
  "nameEntry (Some emptyNameHead) = Some (GedcomEntry ''NAME'' [] (Some []) [])
   \<and> getSoftware (Some emptyNameHead) = None"
proof -
  have n: "nameEntry (Some emptyNameHead) = Some (GedcomEntry ''NAME'' [] (Some []) [])"
    by (simp add: nameEntry_def sourEntry_def emptyNameHead_def)
  from getSoftware_never_empty [of "Some emptyNameHead"] n
  show ?thesis by simp
qed

section \<open>Properties of the conversion\<close>







section \<open>Properties of the index\<close>









text \<open>The identifier of a pointer with its two delimiters is the pointer without them.\<close>

lemma pointerToId_delimited: "pointerToId (a # xs @ [b]) = xs"
  by (simp add: pointerToId_def substring_def)

section \<open>Properties of the image filter\<close>

lemma startsWith_prefix: "startsWith s p \<longleftrightarrow> prefix p s"
  by (auto simp add: startsWith_def prefix_def) (metis append_take_drop_id)

lemma endsWith_suffix: "endsWith s e \<longleftrightarrow> suffix e s"
  unfolding endsWith_def
  by (metis append_take_drop_id same_append_eq suffix_drop suffix_length_le suffix_take)

lemma splitPath_nonempty: "splitPath u \<noteq> []"
  by (induction u) (auto split: list.splits)

lemma splitPath_plain: "\<forall>c\<in>set u. \<not> isSeparator c \<Longrightarrow> splitPath u = [u]"
  by (induction u) auto

lemma length_splitPath: "length (splitPath u) = Suc (length (filter isSeparator u))"
  by (induction u) (auto split: list.splits simp add: splitPath_nonempty)

lemma splitPath_sep:
  assumes "\<exists>c\<in>set u. isSeparator c"
  shows "\<exists>seg s2 segs. splitPath u = seg # s2 # segs"
proof -
  from assms have "filter isSeparator u \<noteq> []" by (simp add: filter_empty_conv)
  then have "2 \<le> length (splitPath u)"
    by (cases "filter isSeparator u") (simp_all add: length_splitPath)
  then show ?thesis
    by (cases "splitPath u"; cases "tl (splitPath u)") auto
qed

lemma matchFileName_plain:
  assumes "\<forall>c\<in>set u. \<not> isSeparator c"
  shows "matchFileName u = u"
proof -
  from assms have "takeWhile (\<lambda>c. \<not> isSeparator c) (rev u) = rev u"
    by (simp add: takeWhile_eq_all_conv)
  then have "rev (takeWhile (\<lambda>c. \<not> isSeparator c) (rev u)) = rev (rev u)"
    by (rule arg_cong)
  then show ?thesis by (simp only: matchFileName_def rev_rev_ident)
qed

lemma matchFileName_later:
  "\<exists>x\<in>set cs. isSeparator x \<Longrightarrow> matchFileName (c # cs) = matchFileName cs"
  by (auto simp add: matchFileName_def)

lemma matchFileName_first:
  assumes "isSeparator c" and "\<forall>x\<in>set cs. \<not> isSeparator x"
  shows "matchFileName (c # cs) = cs"
proof -
  have "takeWhile (\<lambda>c. \<not> isSeparator c) (rev cs @ [c])
      = rev cs @ takeWhile (\<lambda>c. \<not> isSeparator c) [c]"
    by (rule takeWhile_append2) (use assms(2) in simp)
  also from assms(1) have "\<dots> = rev cs" by simp
  finally have "rev (takeWhile (\<lambda>c. \<not> isSeparator c) (rev cs @ [c])) = rev (rev cs)"
    by (rule arg_cong)
  then show ?thesis by (simp only: matchFileName_def rev.simps rev_rev_ident)
qed

lemma matchFileName_lastSegment: "matchFileName u = lastSegment u"
proof (induction u)
  case Nil
  show ?case by (simp add: matchFileName_def lastSegment_def)
next
  case (Cons c cs)
  show ?case
  proof (cases "\<exists>x\<in>set cs. isSeparator x")
    case True
    then obtain seg s2 segs where "splitPath cs = seg # s2 # segs"
      using splitPath_sep by blast
    then have "last (splitPath (c # cs)) = last (splitPath cs)" by simp
    with True Cons show ?thesis by (simp add: matchFileName_later lastSegment_def)
  next
    case False
    then have plain: "\<forall>x\<in>set cs. \<not> isSeparator x" by simp
    then have "splitPath cs = [cs]" by (rule splitPath_plain)
    with plain show ?thesis
      by (cases "isSeparator c")
        (simp_all add: lastSegment_def matchFileName_first matchFileName_plain)
  qed
qed

lemma isImageFile_suffix:
  "isImageFile u \<longleftrightarrow>
     suffix ''.jpg'' (toLowerCase u) \<or> suffix ''.png'' (toLowerCase u)
     \<or> suffix ''.gif'' (toLowerCase u)"
  by (simp add: isImageFile_def IMAGE_EXTENSIONS_def endsWith_suffix Let_def)

lemma filterStep_survives:
  "filterStep imageMap newImages img =
     (if survives imageMap img then newImages @ [overridden imageMap img] else newImages)"
  by (auto simp add: filterStep_def survives_def overridden_def acceptedLink_def
      matchFileName_lastSegment startsWith_prefix isImageFile_suffix split: option.splits)

lemma foldl_filterStep:
  "foldl (filterStep imageMap) newImages imgs =
     newImages @ map (overridden imageMap) (filter (survives imageMap) imgs)"
  by (induction imgs arbitrary: newImages) (simp_all add: filterStep_survives)

text \<open>
  C5. For an individual with a non-empty sequence of images, the result keeps the other
  fields and holds, in their original order, the images that survive: those whose file name
  (the last segment of the url split at slashes and backslashes) is a key of the mapping,
  with the mapping's url and their own title, and of the others, unchanged, exactly those
  whose url starts with \<open>http\<close> and ends, once lower-cased, with \<open>.jpg\<close>, \<open>.png\<close> or
  \<open>.gif\<close>. All other images are dropped.
\<close>

theorem filterImage_survivors:
  assumes "images indi = Some imgs" and "imgs \<noteq> []"
  shows "filterImage indi imageMap =
     indi\<lparr>images := Some (map (overridden imageMap) (filter (survives imageMap) imgs))\<rparr>"
  using assms by (simp add: filterImage_def foldl_filterStep)

theorem filterImage_survivors_witness:
  "images albumIndi = Some albumImages
   \<and> albumImages \<noteq> []
   \<and> images (filterImage albumIndi albumMap) =
       Some [\<lparr>url = ''blob:1'', title = Some ''Me''\<rparr>,
             \<lparr>url = ''http://example.com/a.jpg'', title = None\<rparr>,
             \<lparr>url = ''https://example.com/a.PNG'', title = Some ''Us''\<rparr>]"
proof -
  have i: "images albumIndi = Some albumImages" by (simp add: albumIndi_def)
  have n: "albumImages \<noteq> []" by (simp add: albumImages_def)
  have s: "map (overridden albumMap) (filter (survives albumMap) albumImages) =
       [\<lparr>url = ''blob:1'', title = Some ''Me''\<rparr>,
        \<lparr>url = ''http://example.com/a.jpg'', title = None\<rparr>,
        \<lparr>url = ''https://example.com/a.PNG'', title = Some ''Us''\<rparr>]"
    by code_simp
  from filterImage_survivors [OF i n, of albumMap] i n s
  show ?thesis by simp
qed

end
